theory Spec2Isabelle
  imports Main "HOL-Library.Word"
begin

section \<open>The staging buffer of FastLogger.cc\<close>

text \<open>
  Pointers into \<open>storage[]\<close> are 64-bit addresses, compared as unsigned numbers;
  \<open>size_t\<close> and \<open>uint64_t\<close> are 64-bit words, and a pointer difference stored
  into an unsigned variable is the difference of the two words. The class declaration is
  in FastLogger.h, which is not among the sources: the fields below are the ones
  FastLogger.cc reads and writes, and \<open>STAGING_BUFFER_SIZE\<close> is a parameter
  (\<open>sz\<close>) of every function that uses it.
\<close>

type_synonym addr = "64 word"

text \<open>
  \<open>BufferUtils::UncompressedLogEntry\<close> is declared in a header that is not among the
  sources. The record holds the four fields FastLogger.cc reads and the argument bytes
  that follow the header. \<open>fmtId\<close> and \<open>timestamp\<close> have the widths of the variables
  they are copied into at lines 323-324 (\<open>uint32_t lastFmtId\<close>,
  \<open>uint64_t lastTimestamp\<close>); \<open>entrySize\<close> and \<open>argMetaBytes\<close> are taken to be
  \<open>uint32_t\<close> as well, so that their sum at line 310 is a sum of 32-bit unsigned
  numbers, which wraps at \<open>2^32\<close>.
\<close>

record UncompressedLogEntry =
  fmtId :: "32 word"
  timestamp :: "64 word"
  entrySize :: "32 word"
  argMetaBytes :: "32 word"
  argData :: "8 word list"

text \<open>
  \<open>entryAt s a\<close> is the entry that a read through
  \<open>reinterpret_cast<UncompressedLogEntry*>(a)\<close> finds in \<open>storage[]\<close>: the contents
  of the ring, as the compression thread sees them.
\<close>

record StagingBuffer =
  storage :: addr
  producerPos :: addr
  consumerPos :: addr
  endOfRecordedSpace :: addr
  minFreeSpace :: "64 word"
  shouldDeallocate :: bool
  entryAt :: "addr \<Rightarrow> UncompressedLogEntry"

subsection \<open>peek (lines 634-653)\<close>

text \<open>
  The result is the returned pointer, the value stored through \<open>bytesAvailable\<close>,
  and the buffer after the call (peek may move \<open>consumerPos\<close>).
\<close>

definition peek :: "StagingBuffer \<Rightarrow> addr \<times> 64 word \<times> StagingBuffer" where
  "peek s =
     (let cachedRecordHead = producerPos s in
      if cachedRecordHead < consumerPos s then
        (let bytesAvailable = endOfRecordedSpace s - consumerPos s in
         if bytesAvailable > 0 then (consumerPos s, bytesAvailable, s)
         else (let s' = s\<lparr>consumerPos := storage s\<rparr> in
               (consumerPos s', cachedRecordHead - consumerPos s', s')))
      else (consumerPos s, cachedRecordHead - consumerPos s, s))"

subsection \<open>reserveSpaceInternal (lines 582-620)\<close>

text \<open>
  One pass through the body of the \<open>while\<close> loop either leaves the function
  (\<open>Return\<close>, with the pointer returned, \<open>None\<close> for \<open>nullptr\<close>) or reaches the
  end of the body (\<open>Continue\<close>).
\<close>

datatype reserve_iter = Return "addr option" StagingBuffer | Continue StagingBuffer

definition reserveRecompute ::
  "addr \<Rightarrow> StagingBuffer \<Rightarrow> 64 word \<Rightarrow> bool \<Rightarrow> reserve_iter" where
  "reserveRecompute cachedReadPos s nbytes blocking =
     (let s' = s\<lparr>minFreeSpace := cachedReadPos - producerPos s\<rparr> in
      if \<not> blocking \<and> minFreeSpace s' \<le> nbytes then Return None s'
      else Continue s')"

definition reserveIter ::
  "64 word \<Rightarrow> StagingBuffer \<Rightarrow> 64 word \<Rightarrow> bool \<Rightarrow> reserve_iter" where
  "reserveIter sz s nbytes blocking =
     (let endOfBuffer = storage s + sz;
          cachedReadPos = consumerPos s in
      if cachedReadPos \<le> producerPos s then
        (let s1 = s\<lparr>minFreeSpace := endOfBuffer - producerPos s\<rparr> in
         if minFreeSpace s1 > nbytes then Return (Some (producerPos s1)) s1
         else (let s2 = s1\<lparr>endOfRecordedSpace := producerPos s1\<rparr>;
                   s3 = s2\<lparr>producerPos := storage s2\<rparr>
               in reserveRecompute cachedReadPos s3 nbytes blocking))
      else reserveRecompute cachedReadPos s nbytes blocking)"

text \<open>
  \<open>consumerPos\<close> is written by the compression thread while the producer runs, and the
  loop loads it once per iteration. The list \<open>loads\<close> gives the value each successive
  load finds; it is written into the record before the iteration reads it. A producer
  that is still spinning when the list is used up has not returned: the result is
  \<open>None\<close>. A consumer that does nothing is the list that repeats \<open>consumerPos s\<close>.
\<close>

fun reserveSpaceInternal ::
  "addr list \<Rightarrow> 64 word \<Rightarrow> StagingBuffer \<Rightarrow> 64 word \<Rightarrow> bool
     \<Rightarrow> (addr option \<times> StagingBuffer) option" where
  "reserveSpaceInternal loads sz s nbytes blocking =
     (if minFreeSpace s \<le> nbytes then
        (case loads of
           [] \<Rightarrow> None
         | c # rest \<Rightarrow>
             (case reserveIter sz (s\<lparr>consumerPos := c\<rparr>) nbytes blocking of
                Return r s' \<Rightarrow> Some (r, s')
              | Continue s' \<Rightarrow> reserveSpaceInternal rest sz s' nbytes blocking))
      else Some (Some (producerPos s), s))"

declare reserveSpaceInternal.simps [simp del]

subsection \<open>The slow path as the specification words it\<close>

text \<open>
  Section 4.1 of the specification, steps 1 to 3 of the slow path, entered with
  \<open>minFreeSpace \<le> n\<close>: load \<open>consumerPos\<close> into \<open>c\<close>; if \<open>c \<le> producerPos\<close> and the
  tail run \<open>end - producerPos\<close> exceeds \<open>n\<close>, set \<open>minFreeSpace\<close> to that run and
  return \<open>producerPos\<close>, otherwise publish \<open>endOfRecordedSpace\<close> and wrap; recompute
  \<open>minFreeSpace = c - producerPos\<close>; if that is still insufficient, fail in non-blocking
  mode and otherwise go round again with a fresh load; once it is sufficient the
  reservation is at \<open>producerPos\<close>.
\<close>

fun spec_slow_path ::
  "addr list \<Rightarrow> 64 word \<Rightarrow> StagingBuffer \<Rightarrow> 64 word \<Rightarrow> bool
     \<Rightarrow> (addr option \<times> StagingBuffer) option" where
  "spec_slow_path [] sz s n blocking = None"
| "spec_slow_path (c # rest) sz s n blocking =
     (let s0 = s\<lparr>consumerPos := c\<rparr>;
          run = (storage s0 + sz) - producerPos s0 in
      if c \<le> producerPos s0 \<and> n < run
      then Some (Some (producerPos s0), s0\<lparr>minFreeSpace := run\<rparr>)
      else
        (let s1 = (if c \<le> producerPos s0
                   then s0\<lparr>endOfRecordedSpace := producerPos s0, producerPos := storage s0\<rparr>
                   else s0);
             s2 = s1\<lparr>minFreeSpace := c - producerPos s1\<rparr> in
         if minFreeSpace s2 \<le> n
         then (if blocking then spec_slow_path rest sz s2 n blocking else Some (None, s2))
         else Some (Some (producerPos s2), s2)))"

subsection \<open>consume and checkCanDelete\<close>

text \<open>
  Modelled from the spec: \<open>StagingBuffer::consume\<close> is defined in FastLogger.h, which is
  not among the sources. Section 4.1: consume(k) releases the first k bytes of the last
  peek back to the producer by advancing \<open>consumerPos\<close>.
\<close>

definition consume :: "StagingBuffer \<Rightarrow> nat \<Rightarrow> StagingBuffer" where
  "consume s k = s\<lparr>consumerPos := consumerPos s + of_nat k\<rparr>"

text \<open>
  Modelled from the spec: \<open>StagingBuffer::checkCanDelete\<close> is defined in FastLogger.h,
  which is not among the sources. Section 4.1: true iff \<open>shouldDeallocate\<close> is set and the
  ring is empty.
\<close>

definition checkCanDelete :: "StagingBuffer \<Rightarrow> bool" where
  "checkCanDelete s = (shouldDeallocate s \<and> consumerPos s = producerPos s)"

section \<open>The compression thread\<close>

text \<open>
  What FastLogger.cc takes from headers that are not among the sources:
  \<open>OUTPUT_BUFFER_SIZE\<close>, the size of an entry header, the metadata compressor
  (\<open>BufferUtils::compressMetadata\<close>, given here by the number of bytes by which it
  advances \<open>out\<close>) and the generated table of per-format compressors
  (\<open>compressFnArray[fmtId](re, out)\<close>, given by the byte count it returns).
\<close>

record Collaborators =
  OUTPUT_BUFFER_SIZE :: nat
  sizeofEntry :: nat
  compressMetadata :: "UncompressedLogEntry \<Rightarrow> 64 word \<Rightarrow> 32 word \<Rightarrow> nat"
  compressFnArray :: "32 word \<Rightarrow> UncompressedLogEntry \<Rightarrow> nat \<Rightarrow> nat"

text \<open>
  A call of a per-format compressor, as the scan makes it: the entry, the output cursor
  when the drainer compared the entry's bound with the space left, the bytes the metadata
  compressor then wrote, and the cursor passed to the per-format compressor. Cursors are
  offsets from \<open>compressingBuffer\<close>.
\<close>

record compressor_call =
  call_entry :: UncompressedLogEntry
  out_at_check :: nat
  meta_bytes :: nat
  out_at_call :: nat

text \<open>
  The state of \<open>compressionThreadMain\<close> during a scan: the members of FastLogger the
  scan uses, its locals (\<open>out\<close> as an offset from \<open>compressingBuffer\<close>, \<open>i\<close>,
  \<open>outputBufferFull\<close>, \<open>workFound\<close>), and two lists that only record what happened:
  the compressor calls made and the buffers deleted.
\<close>

record Drainer =
  threadBuffers :: "StagingBuffer list"
  compressionThreadShouldExit :: bool
  lastFmtId :: "32 word"
  lastTimestamp :: "64 word"
  lastStagingBufferChecked :: nat
  out :: nat
  i :: nat
  outputBufferFull :: bool
  workFound :: bool
  eventsProcessed :: nat
  totalBytesRead :: nat
  compressorCalls :: "compressor_call list"
  destroyed :: "StagingBuffer list"

datatype abort = AssertFailed | OutOfRange

text \<open>
  How a loop that takes fuel comes out: it ended with a result, it aborted in a state, or
  the fuel ran out and it is still running in a state.
\<close>

datatype 'a outcome = Ended 'a | Aborted abort Drainer | Unfinished Drainer

subsection \<open>The loop over the entries of one peek (lines 303-333)\<close>

text \<open>
  The loop ends when \<open>readableBytes\<close> reaches 0 or the output buffer is full; an entry
  of size 0 keeps it running, so the function takes fuel. A failed \<open>assert\<close> aborts.
  The result of a loop that ended is the value of \<open>readableBytes\<close> after it and the
  state. At line 310 the sum of the two 32-bit fields is converted to \<open>ptrdiff_t\<close> and
  compared with \<open>endOfBuffer - out\<close> as a signed number.
\<close>

fun compressEntries ::
  "nat \<Rightarrow> Collaborators \<Rightarrow> addr \<Rightarrow> nat \<Rightarrow> Drainer \<Rightarrow> (nat \<times> Drainer) outcome" where
  "compressEntries 0 E peekPosition readableBytes d = Unfinished d"
| "compressEntries (Suc fuel) E peekPosition readableBytes d =
     (if readableBytes > 0 then
        (if \<not> readableBytes \<ge> sizeofEntry E then Aborted AssertFailed d
         else
           (let sb = threadBuffers d ! i d;
                re = entryAt sb peekPosition in
            if \<not> unat (entrySize re) \<le> readableBytes then Aborted AssertFailed d
            else if uint (entrySize re + argMetaBytes re)
                      > int (OUTPUT_BUFFER_SIZE E) - int (out d)
            then Ended (readableBytes,
                   d\<lparr>lastStagingBufferChecked := i d, outputBufferFull := True\<rparr>)
            else
              (let d1 = d\<lparr>eventsProcessed := eventsProcessed d + 1\<rparr>;
                   m = compressMetadata E re (lastTimestamp d1) (lastFmtId d1);
                   d2 = d1\<lparr>out := out d1 + m, lastFmtId := fmtId re,
                          lastTimestamp := timestamp re\<rparr>;
                   bytesOut = compressFnArray E (fmtId re) re (out d2);
                   d3 = d2\<lparr>compressorCalls := compressorCalls d2 @
                            [\<lparr>call_entry = re, out_at_check = out d, meta_bytes = m,
                              out_at_call = out d2\<rparr>],
                          out := out d2 + bytesOut\<rparr>;
                   d4 = d3\<lparr>threadBuffers :=
                            (threadBuffers d3)[i d3 := consume sb (unat (entrySize re))]\<rparr>
               in compressEntries fuel E (peekPosition + of_nat (unat (entrySize re)))
                    (readableBytes - unat (entrySize re)) d4)))
      else Ended (readableBytes, d))"

subsection \<open>One iteration of the scan over the buffers (lines 290-366)\<close>

datatype scan_iter =
    ScanContinue Drainer | ScanBreak Drainer | ScanAbort abort Drainer | ScanUnfinished Drainer

text \<open>Lines 356-366: the step to the next buffer and the test for a completed pass.\<close>

definition advance :: "Drainer \<Rightarrow> scan_iter" where
  "advance d =
     (let d1 = d\<lparr>i := (i d + 1) mod length (threadBuffers d)\<rparr> in
      if i d1 = lastStagingBufferChecked d1 then
        (if \<not> workFound d1 then ScanBreak d1
         else ScanContinue (d1\<lparr>workFound := False\<rparr>))
      else ScanContinue d1)"

text \<open>
  Lines 342-352: the buffer at \<open>i\<close> is erased from \<open>threadBuffers\<close> and deleted, and
  the loop continues without advancing \<open>i\<close>.
\<close>

definition eraseAndDelete :: "Drainer \<Rightarrow> StagingBuffer \<Rightarrow> Drainer" where
  "eraseAndDelete d sb =
     (let d1 = d\<lparr>threadBuffers := take (i d) (threadBuffers d) @ drop (Suc (i d)) (threadBuffers d)\<rparr>;
          d2 = (if i d1 = length (threadBuffers d1) then
                  (let d1' = (if lastStagingBufferChecked d1 = i d1
                              then d1\<lparr>lastStagingBufferChecked := 0\<rparr> else d1)
                   in d1'\<lparr>i := 0\<rparr>)
                else d1)
      in d2\<lparr>destroyed := destroyed d2 @ [sb]\<rparr>)"

text \<open>
  \<open>threadBuffers[i]\<close> is an unchecked read of a \<open>std::vector\<close>: an index that is not
  below the size aborts the model.
\<close>

definition scanIter :: "nat \<Rightarrow> Collaborators \<Rightarrow> Drainer \<Rightarrow> scan_iter" where
  "scanIter fuel E d =
     (if \<not> i d < length (threadBuffers d) then ScanAbort OutOfRange d
      else
        (case peek (threadBuffers d ! i d) of
           (peekPosition, bytesAvailable, sb) \<Rightarrow>
             (let readableBytes = unat bytesAvailable;
                  d0 = d\<lparr>threadBuffers := (threadBuffers d)[i d := sb]\<rparr> in
              if readableBytes > 0 then
                (case compressEntries fuel E peekPosition readableBytes (d0\<lparr>workFound := True\<rparr>) of
                   Unfinished d1 \<Rightarrow> ScanUnfinished d1
                 | Aborted a d1 \<Rightarrow> ScanAbort a d1
                 | Ended (rest, d1) \<Rightarrow>
                     advance (d1\<lparr>totalBytesRead :=
                                    totalBytesRead d1 + (readableBytes - rest)\<rparr>))
              else if checkCanDelete sb then ScanContinue (eraseAndDelete d0 sb)
              else advance d0)))"

subsection \<open>The scan (lines 269-367)\<close>

text \<open>
  The scan runs while the thread is not told to exit, the output buffer is not full and
  there are buffers. Nothing bounds the number of its iterations, so it takes fuel.
\<close>

fun scanBuffers :: "nat \<Rightarrow> Collaborators \<Rightarrow> Drainer \<Rightarrow> Drainer outcome" where
  "scanBuffers 0 E d = Unfinished d"
| "scanBuffers (Suc fuel) E d =
     (if \<not> compressionThreadShouldExit d \<and> \<not> outputBufferFull d \<and> threadBuffers d \<noteq> [] then
        (case scanIter fuel E d of
           ScanUnfinished d' \<Rightarrow> Unfinished d'
         | ScanAbort a d' \<Rightarrow> Aborted a d'
         | ScanBreak d' \<Rightarrow> Ended d'
         | ScanContinue d' \<Rightarrow> scanBuffers fuel E d')
      else Ended d)"

definition beginScan :: "Drainer \<Rightarrow> Drainer" where
  "beginScan d = d\<lparr>out := 0, i := lastStagingBufferChecked d,
                    outputBufferFull := False, workFound := False\<rparr>"

text \<open>
  The state a scan has reached: the one it ended or aborted in, or the one it is in when
  the fuel runs out.
\<close>

definition reached :: "Drainer outcome \<Rightarrow> Drainer" where
  "reached r = (case r of Ended d \<Rightarrow> d | Aborted a d \<Rightarrow> d | Unfinished d \<Rightarrow> d)"

text \<open>
  What the check of line 310 leaves true of a call: the sum of the entry's two fields, as
  the line computes it in 32 bits, fitted into the space left when the drainer compared
  them, and the cursor passed to the per-format compressor is that cursor advanced by
  what the metadata compressor wrote for the entry.
\<close>

definition bound_checked :: "Collaborators \<Rightarrow> compressor_call \<Rightarrow> bool" where
  "bound_checked E c =
     (uint (entrySize (call_entry c) + argMetaBytes (call_entry c))
        \<le> int (OUTPUT_BUFFER_SIZE E) - int (out_at_check c)
      \<and> out_at_call c = out_at_check c + meta_bytes c
      \<and> (\<exists>ts f. meta_bytes c = compressMetadata E (call_entry c) ts f))"

subsection \<open>The loop of the thread (lines 267-459) and sync (lines 553-560)\<close>









subsection \<open>Padding for direct I/O (lines 394-403)\<close>

text \<open>
  The scratch buffer is a list of \<open>OUTPUT_BUFFER_SIZE\<close> bytes. \<open>memset\<close> past its end is
  a write outside the allocation, and aborts the model.
\<close>

definition memset :: "8 word list \<Rightarrow> nat \<Rightarrow> 8 word \<Rightarrow> nat \<Rightarrow> abort + 8 word list" where
  "memset buf off v n =
     (if off + n \<le> length buf then Inr (take off buf @ replicate n v @ drop (off + n) buf)
      else Inl OutOfRange)"

text \<open>
  \<open>direct\<close> is \<open>FILE_PARAMS & O_DIRECT\<close>. The result is the scratch buffer,
  \<open>bytesToWrite\<close> and \<open>padBytesWritten\<close> after line 403.
\<close>

definition padOutput ::
  "bool \<Rightarrow> 8 word list \<Rightarrow> nat \<Rightarrow> nat \<Rightarrow> abort + 8 word list \<times> nat \<times> nat" where
  "padOutput direct compressingBuffer outOffset padBytesWritten =
     (let bytesToWrite = outOffset in
      if direct then
        (let bytesOver = bytesToWrite mod 512 in
         if bytesOver \<noteq> 0 then
           (case memset compressingBuffer outOffset 0 bytesOver of
              Inl a \<Rightarrow> Inl a
            | Inr buf \<Rightarrow>
                Inr (buf, bytesToWrite + 512 - bytesOver, padBytesWritten + (512 - bytesOver)))
         else Inr (compressingBuffer, bytesToWrite, padBytesWritten))
      else Inr (compressingBuffer, bytesToWrite, padBytesWritten))"

section \<open>Construction and setLogFile\<close>

text \<open>
  The answers of the operating system are parameters: the value \<open>open\<close> returns (a
  descriptor, or -1 when it fails) and the values the two \<open>posix_memalign\<close> calls return
  (0, or an error number).
\<close>

datatype diagnostic = CouldNotOpenDefaultFile | NotEnoughMemory

datatype construction = Exited diagnostic | Running int

definition FastLogger_constructor :: "int \<Rightarrow> int \<Rightarrow> int \<Rightarrow> construction" where
  "FastLogger_constructor opened err1 err2 =
     (let outputFd = opened in
      if outputFd = 0 then Exited CouldNotOpenDefaultFile
      else if err1 \<noteq> 0 then Exited NotEnoughMemory
      else if err2 \<noteq> 0 then Exited NotEnoughMemory
      else Running outputFd)"

text \<open>
  \<open>setLogFile_internal\<close> (lines 487-523): \<open>existsResult\<close> and \<open>rwResult\<close> are what
  \<open>access(filename, F_OK)\<close> and \<open>access(filename, R_OK | W_OK)\<close> return, \<open>opened\<close> what
  \<open>open\<close> returns, \<open>joinable\<close> whether the compression thread can be joined, and
  \<open>outputFd\<close> the descriptor in use. The result is the exception thrown, or the calls
  made in order and the new descriptor.
\<close>

datatype step =
    CallSync | SetShouldExit bool | NotifyWorkAdded | JoinThread | CloseFd int
  | SetOutputFd int | StartThread

datatype switched = Throws string | Switched "step list" int

definition setLogFile_internal ::
  "string \<Rightarrow> int \<Rightarrow> int \<Rightarrow> int \<Rightarrow> bool \<Rightarrow> int \<Rightarrow> switched" where
  "setLogFile_internal filename existsResult rwResult opened joinable outputFd =
     (if existsResult = 0 \<and> rwResult \<noteq> 0
      then Throws (''Unable to read/write from file: '' @ filename)
      else
        (let newFd = opened in
         if newFd = 0 then Throws (''Unable to create file: '' @ filename)
         else Switched
                ([CallSync, SetShouldExit True, NotifyWorkAdded]
                 @ (if joinable then [JoinThread] else [])
                 @ (if outputFd > 0 then [CloseFd outputFd] else [])
                 @ [SetOutputFd newFd, SetShouldExit False, StartThread])
                newFd))"

section \<open>Concrete states\<close>

text \<open>
  A ring of 4096 bytes at address 0x10000 into which six entries of 600 bytes have been
  committed and from which nothing has been consumed: 3600 bytes are unread, 496 bytes
  are free at the tail, and \<open>consumerPos\<close> is still at the start of storage.
\<close>

definition entry600 :: UncompressedLogEntry where
  "entry600 = \<lparr>fmtId = 7, timestamp = 1000, entrySize = 600, argMetaBytes = 0, argData = []\<rparr>"

definition six_unread :: StagingBuffer where
  "six_unread =
     \<lparr>storage = 0x10000, producerPos = 0x10000 + 3600, consumerPos = 0x10000,
      endOfRecordedSpace = 0x10000 + 4096, minFreeSpace = 496, shouldDeallocate = False,
      entryAt = (\<lambda>a. entry600)\<rparr>"

text \<open>A ring whose producer has wrapped and whose consumer has read up to the wrap point.\<close>

definition read_to_wrap :: StagingBuffer where
  "read_to_wrap =
     \<lparr>storage = 0x10000, producerPos = 0x10000 + 1200, consumerPos = 0x10000 + 3600,
      endOfRecordedSpace = 0x10000 + 3600, minFreeSpace = 2400, shouldDeallocate = False,
      entryAt = (\<lambda>a. entry600)\<rparr>"

text \<open>
  Two registered buffers, both empty. The thread that owned the first has exited; the
  second is in use. The state is that of a scan that starts at the second buffer, as it
  does when the previous scan stopped there on a full output buffer.
\<close>

definition exited_buffer :: StagingBuffer where
  "exited_buffer =
     \<lparr>storage = 0x10000, producerPos = 0x10000, consumerPos = 0x10000,
      endOfRecordedSpace = 0x10000 + 4096, minFreeSpace = 4096, shouldDeallocate = True,
      entryAt = (\<lambda>a. entry600)\<rparr>"

definition idle_buffer :: StagingBuffer where
  "idle_buffer =
     \<lparr>storage = 0x20000, producerPos = 0x20000, consumerPos = 0x20000,
      endOfRecordedSpace = 0x20000 + 4096, minFreeSpace = 4096, shouldDeallocate = False,
      entryAt = (\<lambda>a. entry600)\<rparr>"

definition scan_from_second :: Drainer where
  "scan_from_second =
     \<lparr>threadBuffers = [exited_buffer, idle_buffer], compressionThreadShouldExit = False,
      lastFmtId = 0, lastTimestamp = 0, lastStagingBufferChecked = 1, out = 0, i = 1,
      outputBufferFull = False, workFound = False, eventsProcessed = 0, totalBytesRead = 0,
      compressorCalls = [], destroyed = []\<rparr>"

definition after_erase :: Drainer where
  "after_erase = scan_from_second\<lparr>i := 0, threadBuffers := [idle_buffer],
                                  destroyed := [exited_buffer]\<rparr>"

text \<open>
  A scratch buffer of 64 bytes, a metadata compressor that writes two bytes for every
  entry, per-format compressors that copy the bytes after a header of 24 bytes, and one
  buffer holding one entry of 64 bytes.
\<close>

definition entry64 :: UncompressedLogEntry where
  "entry64 = \<lparr>fmtId = 7, timestamp = 1000, entrySize = 64, argMetaBytes = 0, argData = []\<rparr>"

definition small_output :: Collaborators where
  "small_output =
     \<lparr>OUTPUT_BUFFER_SIZE = 64, sizeofEntry = 24,
      compressMetadata = (\<lambda>re ts f. 2),
      compressFnArray = (\<lambda>f re cursor. unat (entrySize re) - 24)\<rparr>"

definition one_entry :: StagingBuffer where
  "one_entry =
     \<lparr>storage = 0x10000, producerPos = 0x10000 + 64, consumerPos = 0x10000,
      endOfRecordedSpace = 0x10000 + 4096, minFreeSpace = 4032, shouldDeallocate = False,
      entryAt = (\<lambda>a. entry64)\<rparr>"

definition one_entry_scan :: Drainer where
  "one_entry_scan =
     \<lparr>threadBuffers = [one_entry], compressionThreadShouldExit = False,
      lastFmtId = 0, lastTimestamp = 0, lastStagingBufferChecked = 0, out = 0, i = 0,
      outputBufferFull = False, workFound = False, eventsProcessed = 0, totalBytesRead = 0,
      compressorCalls = [], destroyed = []\<rparr>"

definition entry64_call :: compressor_call where
  "entry64_call = \<lparr>call_entry = entry64, out_at_check = 0, meta_bytes = 2, out_at_call = 2\<rparr>"

definition one_entry_done :: Drainer where
  "one_entry_done =
     one_entry_scan\<lparr>threadBuffers := [one_entry\<lparr>consumerPos := 0x10000 + 64\<rparr>],
                     lastFmtId := 7, lastTimestamp := 1000, out := 42, eventsProcessed := 1,
                     totalBytesRead := 64, compressorCalls := [entry64_call]\<rparr>"

text \<open>
  The same scratch buffer of 64 bytes and two registered buffers: the first holds one
  entry of 128 bytes, the second the entry of 64 bytes. The inputs are those of two
  passes in which no other thread changes the rings and nobody asks the thread to exit;
  a sync has been requested before the first idle check and none before the second.
\<close>

definition entry128 :: UncompressedLogEntry where
  "entry128 = \<lparr>fmtId = 7, timestamp = 1000, entrySize = 128, argMetaBytes = 0, argData = []\<rparr>"

definition large_entry :: StagingBuffer where
  "large_entry =
     \<lparr>storage = 0x20000, producerPos = 0x20000 + 128, consumerPos = 0x20000,
      endOfRecordedSpace = 0x20000 + 4096, minFreeSpace = 3968, shouldDeallocate = False,
      entryAt = (\<lambda>a. entry128)\<rparr>"

definition large_first :: Drainer where
  "large_first =
     \<lparr>threadBuffers = [large_entry, one_entry], compressionThreadShouldExit = False,
      lastFmtId = 0, lastTimestamp = 0, lastStagingBufferChecked = 0, out = 0, i = 0,
      outputBufferFull = False, workFound = False, eventsProcessed = 0, totalBytesRead = 0,
      compressorCalls = [], destroyed = []\<rparr>"




text \<open>
  One buffer holding an entry whose two fields add up to \<open>2^32\<close>: \<open>entrySize\<close> 64 and
  \<open>argMetaBytes\<close> 0xFFFFFFC0.
\<close>

definition entry_wrapping :: UncompressedLogEntry where
  "entry_wrapping =
     \<lparr>fmtId = 7, timestamp = 1000, entrySize = 64, argMetaBytes = 0xFFFFFFC0, argData = []\<rparr>"

definition one_wrapping :: StagingBuffer where
  "one_wrapping = one_entry\<lparr>entryAt := (\<lambda>a. entry_wrapping)\<rparr>"

definition wrapping_scan :: Drainer where
  "wrapping_scan = one_entry_scan\<lparr>threadBuffers := [one_wrapping]\<rparr>"

definition wrapping_call :: compressor_call where
  "wrapping_call =
     \<lparr>call_entry = entry_wrapping, out_at_check = 0, meta_bytes = 2, out_at_call = 2\<rparr>"

definition wrapping_done :: Drainer where
  "wrapping_done =
     wrapping_scan\<lparr>threadBuffers := [one_wrapping\<lparr>consumerPos := 0x10000 + 64\<rparr>],
                    lastFmtId := 7, lastTimestamp := 1000, out := 42, eventsProcessed := 1,
                    totalBytesRead := 64, compressorCalls := [wrapping_call]\<rparr>"

section \<open>Properties of the staging buffer\<close>

lemma reserveSpaceInternal_fast:
  "nbytes < minFreeSpace s \<Longrightarrow>
     reserveSpaceInternal loads sz s nbytes blocking = Some (Some (producerPos s), s)"
  by (simp add: reserveSpaceInternal.simps not_le [symmetric])

lemma peek_six_unread: "peek six_unread = (0x10000, 3600, six_unread)"
  by (simp add: peek_def six_unread_def Let_def)

text \<open>With equal positions peek reports nothing to read, in every state.\<close>

lemma peek_equal_positions:
  "producerPos s = consumerPos s \<Longrightarrow> peek s = (consumerPos s, 0, s)"
  by (simp add: peek_def)

text \<open>
  A reservation that succeeds returns \<open>producerPos\<close> and leaves a \<open>minFreeSpace\<close> that
  exceeds the request. Whether that many bytes are free is another matter.
\<close>

lemma successful_reservation_cache:
  "reserveSpaceInternal loads sz s n blocking = Some (Some p, s') \<Longrightarrow>
     p = producerPos s' \<and> n < minFreeSpace s'"
proof (induction loads arbitrary: s)
  case Nil
  then show ?case
    by (subst (asm) reserveSpaceInternal.simps) (auto split: if_splits)
next
  case (Cons a rest)
  from Cons.prems show ?case
    by (subst (asm) reserveSpaceInternal.simps)
       (auto simp: reserveIter_def reserveRecompute_def Let_def
             split: if_splits dest: Cons.IH)
qed

text \<open>
  C1: entered with \<open>minFreeSpace \<le> n\<close>, reserveSpaceInternal does what the slow path of
  the specification does, for every sequence of values the loads of \<open>consumerPos\<close> find,
  in blocking and in non-blocking mode: the same pointer or \<open>nullptr\<close> is returned and
  the same buffer is left, or neither has returned when the loads are used up. In
  non-blocking mode one load is enough for it to return.
\<close>

theorem reserveSpaceInternal_is_spec_slow_path:
  assumes "minFreeSpace s \<le> n"
  shows "reserveSpaceInternal loads sz s n blocking = spec_slow_path loads sz s n blocking
         \<and> (\<exists>r s'. reserveSpaceInternal (c # loads) sz s n False = Some (r, s'))"
proof
  from assms show "reserveSpaceInternal loads sz s n blocking = spec_slow_path loads sz s n blocking"
  proof (induction loads arbitrary: s)
    case Nil
    then show ?case by (simp add: reserveSpaceInternal.simps)
  next
    case (Cons a rest)
    show ?case
      using Cons.prems Cons.IH
      by (subst reserveSpaceInternal.simps)
         (auto simp: reserveIter_def reserveRecompute_def Let_def not_le
                     reserveSpaceInternal_fast)
  qed
next
  from assms show "\<exists>r s'. reserveSpaceInternal (c # loads) sz s n False = Some (r, s')"
    by (subst reserveSpaceInternal.simps)
       (auto simp: reserveIter_def reserveRecompute_def Let_def not_le
                   reserveSpaceInternal_fast)
qed

theorem reserveSpaceInternal_is_spec_slow_path_witness:
  "minFreeSpace read_to_wrap \<le> 3000
   \<and> reserveSpaceInternal [0x10000 + 3600] 4096 read_to_wrap 3000 False
       = spec_slow_path [0x10000 + 3600] 4096 read_to_wrap 3000 False
   \<and> spec_slow_path [0x10000 + 3600] 4096 read_to_wrap 3000 False
       = Some (None, read_to_wrap)"
proof -
  have h: "minFreeSpace read_to_wrap \<le> 3000"
    by (simp add: read_to_wrap_def)
  have v: "spec_slow_path [0x10000 + 3600] 4096 read_to_wrap 3000 False
             = Some (None, read_to_wrap)"
    by (simp add: read_to_wrap_def Let_def)
  from reserveSpaceInternal_is_spec_slow_path [OF h, of "[0x10000 + 3600]" 4096 False 0] h v
  show ?thesis by simp
qed

text \<open>
  C3: when the producer has wrapped (\<open>producerPos < consumerPos\<close>) and nothing is left
  to read before \<open>endOfRecordedSpace\<close>, peek moves \<open>consumerPos\<close> to the start of
  storage and returns the run from \<open>storage\<close> up to \<open>producerPos\<close>; when the producer has
  wrapped and bytes are left, it returns the run from \<open>consumerPos\<close> up to
  \<open>endOfRecordedSpace\<close>; otherwise it returns the run from \<open>consumerPos\<close> up to
  \<open>producerPos\<close>. In the last two cases the buffer is unchanged.
\<close>

theorem peek_wraps_or_returns_run:
  "peek s =
     (if producerPos s < consumerPos s \<and> consumerPos s = endOfRecordedSpace s
      then (storage s, producerPos s - storage s, s\<lparr>consumerPos := storage s\<rparr>)
      else if producerPos s < consumerPos s
      then (consumerPos s, endOfRecordedSpace s - consumerPos s, s)
      else (consumerPos s, producerPos s - consumerPos s, s))"
  by (auto simp: peek_def Let_def word_greater_zero_iff)

theorem peek_wraps_or_returns_run_witness:
  "peek read_to_wrap = (0x10000, 1200, read_to_wrap\<lparr>consumerPos := 0x10000\<rparr>)"
  using peek_wraps_or_returns_run [of read_to_wrap]
  by (simp add: read_to_wrap_def)

text \<open>
  C2: the ring holds 3600 unread bytes from the start of storage, 496 bytes are free at
  the tail, and the consumer does nothing. A blocking reservation of 600 bytes wraps
  \<open>producerPos\<close> onto \<open>consumerPos\<close>, takes the equal positions for an empty ring on its
  second pass, and returns the start of storage, where the unread bytes are; peek then
  reports nothing to read.
\<close>

theorem reservation_succeeds_over_unread_bytes:
  "peek six_unread = (0x10000, 3600, six_unread)
   \<and> reserveSpaceInternal [0x10000, 0x10000] 4096 six_unread 600 True
       = Some (Some 0x10000,
               six_unread\<lparr>endOfRecordedSpace := 0x10000 + 3600, producerPos := 0x10000,
                           minFreeSpace := 4096\<rparr>)
   \<and> peek (six_unread\<lparr>endOfRecordedSpace := 0x10000 + 3600, producerPos := 0x10000,
                        minFreeSpace := 4096\<rparr>)
       = (0x10000, 0, six_unread\<lparr>endOfRecordedSpace := 0x10000 + 3600, producerPos := 0x10000,
                                   minFreeSpace := 4096\<rparr>)"
  by (simp add: peek_six_unread)
     (simp add: six_unread_def reserveSpaceInternal.simps reserveIter_def
                reserveRecompute_def peek_def Let_def)

text \<open>
  C10: on the same ring a non-blocking reservation of 600 bytes returns \<open>nullptr\<close>. It
  has changed \<open>endOfRecordedSpace\<close>, \<open>producerPos\<close> and \<open>minFreeSpace\<close> only, and
  \<open>consumerPos\<close> is where it was; but \<open>producerPos\<close> now equals \<open>consumerPos\<close>, and peek,
  which reported 3600 bytes before the call, reports none after it.
\<close>

theorem failed_reservation_hides_unread_bytes:
  "peek six_unread = (0x10000, 3600, six_unread)
   \<and> reserveSpaceInternal [0x10000] 4096 six_unread 600 False
       = Some (None,
               six_unread\<lparr>endOfRecordedSpace := 0x10000 + 3600, producerPos := 0x10000,
                           minFreeSpace := 0\<rparr>)
   \<and> peek (six_unread\<lparr>endOfRecordedSpace := 0x10000 + 3600, producerPos := 0x10000,
                        minFreeSpace := 0\<rparr>)
       = (0x10000, 0, six_unread\<lparr>endOfRecordedSpace := 0x10000 + 3600, producerPos := 0x10000,
                                   minFreeSpace := 0\<rparr>)"
  by (simp add: peek_six_unread)
     (simp add: six_unread_def reserveSpaceInternal.simps reserveIter_def
                reserveRecompute_def peek_def Let_def)

text \<open>
  What a failed non-blocking reservation leaves alone, in every state: the buffer
  afterwards is the buffer before with the loaded \<open>consumerPos\<close>, a new \<open>minFreeSpace\<close>
  and, when it wrapped, \<open>endOfRecordedSpace\<close> at the old \<open>producerPos\<close> and
  \<open>producerPos\<close> at the start of storage.
\<close>

lemma failed_reservation_frame:
  assumes "reserveSpaceInternal (c # loads) sz s n False = Some (None, s')"
  shows "s' = s\<lparr>consumerPos := c, minFreeSpace := minFreeSpace s'\<rparr>
         \<or> s' = s\<lparr>consumerPos := c, minFreeSpace := minFreeSpace s',
                  endOfRecordedSpace := producerPos s, producerPos := storage s\<rparr>"
  using assms
  by (subst (asm) reserveSpaceInternal.simps)
     (auto simp: reserveIter_def reserveRecompute_def Let_def not_le
                 reserveSpaceInternal_fast split: if_splits)

section \<open>Properties of the compression thread\<close>

subsection \<open>The bound checked before an entry is compressed\<close>

text \<open>
  Every call a scan has recorded satisfies \<open>bound_checked\<close>, in whatever state the scan
  is: ended, aborted, or still running when the fuel is used up.
\<close>

lemma compressEntries_calls:
  "list_all (bound_checked E) (compressorCalls d) \<Longrightarrow>
   list_all (bound_checked E)
     (compressorCalls (case compressEntries fuel E p rb d of
                         Ended y \<Rightarrow> snd y | Aborted a d' \<Rightarrow> d' | Unfinished d' \<Rightarrow> d'))"
proof (induction fuel arbitrary: p rb d)
  case 0
  then show ?case by simp
next
  case (Suc fuel)
  let ?re = "entryAt (threadBuffers d ! i d) p"
  let ?m = "compressMetadata E ?re (lastTimestamp d) (lastFmtId d)"
  let ?call = "\<lparr>call_entry = ?re, out_at_check = out d, meta_bytes = ?m,
                 out_at_call = out d + ?m\<rparr>"
  show ?case
  proof (cases "rb > 0 \<and> sizeofEntry E \<le> rb \<and> unat (entrySize ?re) \<le> rb
       \<and> uint (entrySize ?re + argMetaBytes ?re) \<le> int (OUTPUT_BUFFER_SIZE E) - int (out d)")
    case True
    then obtain d4 p' rb2 where
      rec: "compressEntries (Suc fuel) E p rb d = compressEntries fuel E p' rb2 d4"
      and calls: "compressorCalls d4 = compressorCalls d @ [?call]"
      by (simp add: Let_def)
    from True have "bound_checked E ?call"
      by (auto simp: bound_checked_def)
    then have "list_all (bound_checked E) (compressorCalls d4)"
      using Suc.prems unfolding calls by simp
    then show ?thesis unfolding rec by (rule Suc.IH)
  next
    case False
    with Suc.prems show ?thesis
      by (auto simp: Let_def)
  qed
qed

lemma advance_calls:
  "compressorCalls (case advance d of ScanContinue d' \<Rightarrow> d' | ScanBreak d' \<Rightarrow> d'
                      | ScanAbort a d' \<Rightarrow> d' | ScanUnfinished d' \<Rightarrow> d')
     = compressorCalls d"
  by (simp add: advance_def Let_def)

lemma eraseAndDelete_calls: "compressorCalls (eraseAndDelete d sb) = compressorCalls d"
  by (simp add: eraseAndDelete_def Let_def)

lemma scanIter_calls:
  assumes "list_all (bound_checked E) (compressorCalls d)"
  shows "list_all (bound_checked E)
           (compressorCalls (case scanIter fuel E d of ScanContinue d' \<Rightarrow> d' | ScanBreak d' \<Rightarrow> d'
                               | ScanAbort a d' \<Rightarrow> d' | ScanUnfinished d' \<Rightarrow> d'))"
proof -
  obtain p b sb where pk: "peek (threadBuffers d ! i d) = (p, b, sb)"
    by (cases "peek (threadBuffers d ! i d)") auto
  let ?d0 = "d\<lparr>threadBuffers := (threadBuffers d)[i d := sb]\<rparr>"
  let ?ce = "compressEntries fuel E p (unat b) (?d0\<lparr>workFound := True\<rparr>)"
  show ?thesis
  proof (cases "i d < length (threadBuffers d) \<and> unat b > 0")
    case True
    have inv: "list_all (bound_checked E)
        (compressorCalls (case ?ce of Ended y \<Rightarrow> snd y | Aborted a d' \<Rightarrow> d' | Unfinished d' \<Rightarrow> d'))"
      using compressEntries_calls [of E "?d0\<lparr>workFound := True\<rparr>" fuel p "unat b"] assms by simp
    show ?thesis
    proof (cases ?ce)
      case (Ended y)
      obtain rest d1 where y: "y = (rest, d1)" by (cases y)
      have r: "scanIter fuel E d = advance (d1\<lparr>totalBytesRead := totalBytesRead d1 + (unat b - rest)\<rparr>)"
        using pk True Ended y by (simp add: scanIter_def Let_def)
      show ?thesis
        using inv Ended y unfolding r advance_calls by simp
    next
      case (Aborted a d1)
      with pk True inv show ?thesis by (simp add: scanIter_def Let_def)
    next
      case (Unfinished d1)
      with pk True inv show ?thesis by (simp add: scanIter_def Let_def)
    qed
  next
    case False
    have "compressorCalls (case scanIter fuel E d of ScanContinue d' \<Rightarrow> d' | ScanBreak d' \<Rightarrow> d'
                               | ScanAbort a d' \<Rightarrow> d' | ScanUnfinished d' \<Rightarrow> d')
            = compressorCalls d"
      using False pk advance_calls [of ?d0]
      by (auto simp: scanIter_def Let_def eraseAndDelete_calls)
    with assms show ?thesis by simp
  qed
qed

lemma scanBuffers_calls:
  "list_all (bound_checked E) (compressorCalls d) \<Longrightarrow>
   list_all (bound_checked E) (compressorCalls (reached (scanBuffers fuel E d)))"
proof (induction fuel arbitrary: d)
  case 0
  then show ?case by (simp add: reached_def)
next
  case (Suc fuel)
  show ?case
  proof (cases "\<not> compressionThreadShouldExit d \<and> \<not> outputBufferFull d \<and> threadBuffers d \<noteq> []")
    case False
    with Suc.prems show ?thesis by (auto simp: reached_def)
  next
    case True
    note inv = scanIter_calls [OF Suc.prems, of fuel]
    show ?thesis
    proof (cases "scanIter fuel E d")
      case (ScanContinue d1)
      with inv have "list_all (bound_checked E) (compressorCalls d1)" by simp
      then have "list_all (bound_checked E) (compressorCalls (reached (scanBuffers fuel E d1)))"
        by (rule Suc.IH)
      with True ScanContinue show ?thesis by simp
    next
      case (ScanBreak d1)
      with True inv show ?thesis by (simp add: reached_def)
    next
      case (ScanAbort a d1)
      with True inv show ?thesis by (simp add: reached_def)
    next
      case (ScanUnfinished d1)
      with True inv show ?thesis by (simp add: reached_def)
    qed
  qed
qed

text \<open>
  When the first entry of the buffer at \<open>i\<close> does not fit, the scan ends there: it marks
  \<open>outputBufferFull\<close>, remembers the buffer in \<open>lastStagingBufferChecked\<close>, calls no
  compressor and consumes nothing.
\<close>

lemma scan_breaks_out:
  assumes run: "\<not> compressionThreadShouldExit d" "\<not> outputBufferFull d"
      "i d < length (threadBuffers d)"
    and pk: "peek (threadBuffers d ! i d) = (p, b, sb)"
    and rb: "0 < unat b" "sizeofEntry E \<le> unat b" "unat (entrySize (entryAt sb p)) \<le> unat b"
    and big: "int (OUTPUT_BUFFER_SIZE E) - int (out d)
                < uint (entrySize (entryAt sb p) + argMetaBytes (entryAt sb p))"
  shows "\<exists>d'. scanBuffers (Suc (Suc fuel)) E d = Ended d' \<and> outputBufferFull d'
           \<and> lastStagingBufferChecked d' = i d
           \<and> compressorCalls d' = compressorCalls d \<and> out d' = out d
           \<and> threadBuffers d' = (threadBuffers d)[i d := sb]"
proof -
  let ?d0 = "d\<lparr>threadBuffers := (threadBuffers d)[i d := sb], workFound := True\<rparr>"
  have ce: "compressEntries (Suc fuel) E p (unat b) ?d0
              = Ended (unat b, ?d0\<lparr>lastStagingBufferChecked := i d, outputBufferFull := True\<rparr>)"
    using run rb big by (simp add: Let_def)
  have ne: "threadBuffers d \<noteq> []" using run(3) by auto
  have it: "scanIter (Suc fuel) E d
      = advance (?d0\<lparr>lastStagingBufferChecked := i d, outputBufferFull := True\<rparr>)"
    using run pk rb ce by (simp add: scanIter_def Let_def del: compressEntries.simps)
  show ?thesis
  proof (cases "length (threadBuffers d) = 1")
    case True
    with run(3) have "i d = 0" by simp
    with True show ?thesis
      using run ne it by (simp add: advance_def Let_def del: compressEntries.simps)
  next
    case False
    with run(3) have "(i d + 1) mod length (threadBuffers d) \<noteq> i d"
      by (metis One_nat_def Suc_eq_plus1 mod_Suc mod_less n_not_Suc_n  less_Suc_eq_0_disj length_greater_0_conv less_one nat_neq_iff)
    with False show ?thesis
      using run ne it by (simp add: advance_def Let_def del: compressEntries.simps)
  qed
qed

lemma beginScan_one_entry_scan: "beginScan one_entry_scan = one_entry_scan"
  by (simp add: beginScan_def one_entry_scan_def)

lemma one_entry_scan_ends:
  "scanBuffers (Suc (Suc (Suc k))) small_output (beginScan one_entry_scan) = Ended one_entry_done"
  unfolding beginScan_one_entry_scan
  by (simp add: scanIter_def small_output_def one_entry_scan_def one_entry_def
        one_entry_done_def entry64_call_def entry64_def peek_def checkCanDelete_def advance_def
        consume_def Let_def)

lemma beginScan_wrapping_scan: "beginScan wrapping_scan = wrapping_scan"
  by (simp add: beginScan_def wrapping_scan_def one_entry_scan_def)

lemma wrapping_scan_ends:
  "scanBuffers (Suc (Suc (Suc k))) small_output (beginScan wrapping_scan) = Ended wrapping_done"
  unfolding beginScan_wrapping_scan
  by (simp add: scanIter_def small_output_def wrapping_scan_def one_entry_scan_def one_wrapping_def
        one_entry_def wrapping_done_def wrapping_call_def entry_wrapping_def peek_def
        checkCanDelete_def advance_def consume_def Let_def)


text \<open>
  C6, as amended. In every scan, whether it ends, aborts or never ends, every call of a
  per-format compressor \<open>compressFnArray[fmtId](entry, out)\<close> is made for an entry whose
  bound \<open>entrySize + argMetaBytes\<close>, as line 310 computes it in 32 bits, fitted into the
  scratch space left at the output cursor when the drainer checked it, which is before
  the metadata compressor wrote; at the call itself the space left at \<open>out\<close> is at
  least that bound less the bytes the metadata compressor wrote for the entry; and when
  the two fields add up to less than \<open>2^32\<close> the same holds of their sum. When the
  bound of the first entry of a buffer does not fit, the scan breaks out: it ends with
  \<open>outputBufferFull\<close> set and \<open>lastStagingBufferChecked\<close> at that buffer, without a
  compressor call and without output.
\<close>

theorem compressor_call_within_checked_bound:
  "(compressorCalls d = [] \<and> c \<in> set (compressorCalls (reached (scanBuffers fuel E (beginScan d))))
      \<longrightarrow> uint (entrySize (call_entry c) + argMetaBytes (call_entry c))
             \<le> int (OUTPUT_BUFFER_SIZE E) - int (out_at_check c)
          \<and> uint (entrySize (call_entry c) + argMetaBytes (call_entry c))
             \<le> int (OUTPUT_BUFFER_SIZE E) - int (out_at_call c) + int (meta_bytes c)
          \<and> (\<exists>ts f. meta_bytes c = compressMetadata E (call_entry c) ts f)
          \<and> (unat (entrySize (call_entry c)) + unat (argMetaBytes (call_entry c)) < 2 ^ 32
               \<longrightarrow> int (unat (entrySize (call_entry c)) + unat (argMetaBytes (call_entry c)))
                      \<le> int (OUTPUT_BUFFER_SIZE E) - int (out_at_call c) + int (meta_bytes c)))
   \<and> (\<not> compressionThreadShouldExit s \<and> \<not> outputBufferFull s \<and> i s < length (threadBuffers s)
       \<and> peek (threadBuffers s ! i s) = (p, b, sb)
       \<and> 0 < unat b \<and> sizeofEntry E \<le> unat b \<and> unat (entrySize (entryAt sb p)) \<le> unat b
       \<and> int (OUTPUT_BUFFER_SIZE E) - int (out s)
            < uint (entrySize (entryAt sb p) + argMetaBytes (entryAt sb p))
      \<longrightarrow> (\<exists>s'. scanBuffers (Suc (Suc n)) E s = Ended s' \<and> outputBufferFull s'
                \<and> lastStagingBufferChecked s' = i s
                \<and> compressorCalls s' = compressorCalls s \<and> out s' = out s
                \<and> threadBuffers s' = (threadBuffers s)[i s := sb]))"
proof (intro conjI impI)
  assume a: "compressorCalls d = [] \<and> c \<in> set (compressorCalls (reached (scanBuffers fuel E (beginScan d))))"
  then have "list_all (bound_checked E) (compressorCalls (beginScan d))"
    by (simp add: beginScan_def)
  from scanBuffers_calls [OF this, of fuel] a
  have bc: "bound_checked E c" by (simp add: list_all_iff)
  then show "uint (entrySize (call_entry c) + argMetaBytes (call_entry c))
             \<le> int (OUTPUT_BUFFER_SIZE E) - int (out_at_check c)"
    and at_call: "uint (entrySize (call_entry c) + argMetaBytes (call_entry c))
             \<le> int (OUTPUT_BUFFER_SIZE E) - int (out_at_call c) + int (meta_bytes c)"
    and "\<exists>ts f. meta_bytes c = compressMetadata E (call_entry c) ts f"
    by (auto simp: bound_checked_def)
  assume small: "unat (entrySize (call_entry c)) + unat (argMetaBytes (call_entry c)) < 2 ^ 32"
  then have "unat (entrySize (call_entry c) + argMetaBytes (call_entry c))
               = unat (entrySize (call_entry c)) + unat (argMetaBytes (call_entry c))"
    by (simp add: unat_add_lem [THEN iffD1])
  then have "uint (entrySize (call_entry c) + argMetaBytes (call_entry c))
               = int (unat (entrySize (call_entry c)) + unat (argMetaBytes (call_entry c)))"
    by (simp only: uint_nat)
  with at_call show "int (unat (entrySize (call_entry c)) + unat (argMetaBytes (call_entry c)))
                      \<le> int (OUTPUT_BUFFER_SIZE E) - int (out_at_call c) + int (meta_bytes c)"
    by simp
next
  assume b: "\<not> compressionThreadShouldExit s \<and> \<not> outputBufferFull s \<and> i s < length (threadBuffers s)
       \<and> peek (threadBuffers s ! i s) = (p, b, sb)
       \<and> 0 < unat b \<and> sizeofEntry E \<le> unat b \<and> unat (entrySize (entryAt sb p)) \<le> unat b
       \<and> int (OUTPUT_BUFFER_SIZE E) - int (out s)
            < uint (entrySize (entryAt sb p) + argMetaBytes (entryAt sb p))"
  then show "\<exists>s'. scanBuffers (Suc (Suc n)) E s = Ended s' \<and> outputBufferFull s'
                \<and> lastStagingBufferChecked s' = i s
                \<and> compressorCalls s' = compressorCalls s \<and> out s' = out s
                \<and> threadBuffers s' = (threadBuffers s)[i s := sb]"
    using scan_breaks_out [of s p b sb E n] by blast
qed

theorem compressor_call_within_checked_bound_witness:
  "compressorCalls one_entry_scan = []
   \<and> entry64_call \<in> set (compressorCalls (reached
         (scanBuffers (Suc (Suc (Suc 0))) small_output (beginScan one_entry_scan))))
   \<and> uint (entrySize (call_entry entry64_call) + argMetaBytes (call_entry entry64_call))
        \<le> int (OUTPUT_BUFFER_SIZE small_output) - int (out_at_call entry64_call)
            + int (meta_bytes entry64_call)
   \<and> meta_bytes entry64_call = 2
   \<and> peek (threadBuffers large_first ! i large_first) = (0x20000, 128, large_entry)
   \<and> (\<exists>s'. scanBuffers (Suc (Suc 0)) small_output large_first = Ended s'
            \<and> outputBufferFull s' \<and> lastStagingBufferChecked s' = i large_first
            \<and> compressorCalls s' = compressorCalls large_first \<and> out s' = out large_first
            \<and> threadBuffers s' = (threadBuffers large_first)[i large_first := large_entry])"
proof -
  have h1: "compressorCalls one_entry_scan = []
            \<and> entry64_call \<in> set (compressorCalls (reached
                 (scanBuffers (Suc (Suc (Suc 0))) small_output (beginScan one_entry_scan))))"
    unfolding one_entry_scan_ends
    by (simp add: reached_def one_entry_done_def one_entry_scan_def)
  have pk: "peek (threadBuffers large_first ! i large_first) = (0x20000, 128, large_entry)"
    by (simp add: large_first_def large_entry_def peek_def)
  have h2: "\<not> compressionThreadShouldExit large_first \<and> \<not> outputBufferFull large_first
       \<and> i large_first < length (threadBuffers large_first)
       \<and> peek (threadBuffers large_first ! i large_first) = (0x20000, 128, large_entry)
       \<and> 0 < unat (128 :: 64 word) \<and> sizeofEntry small_output \<le> unat (128 :: 64 word)
       \<and> unat (entrySize (entryAt large_entry 0x20000)) \<le> unat (128 :: 64 word)
       \<and> int (OUTPUT_BUFFER_SIZE small_output) - int (out large_first)
            < uint (entrySize (entryAt large_entry 0x20000)
                    + argMetaBytes (entryAt large_entry 0x20000))"
    unfolding pk
    by (simp add: large_first_def large_entry_def small_output_def entry128_def)
  have m: "meta_bytes entry64_call = 2"
    by (simp add: entry64_call_def)
  from compressor_call_within_checked_bound [of one_entry_scan entry64_call "Suc (Suc (Suc 0))" small_output
              large_first "0x20000" 128 large_entry 0] h1 h2 pk m
  show ?thesis by blast
qed

text \<open>
  C6 as stated, with the bound holding at the call itself, fails twice. With 64 bytes of
  scratch space and an entry whose bound is 64, the check passes at cursor 0, the
  metadata compressor writes 2 bytes, and the per-format compressor is called at cursor 2
  with 62 bytes left. And for an entry with \<open>entrySize\<close> 64 and \<open>argMetaBytes\<close>
  0xFFFFFFC0 the 32-bit sum is 0, the check passes, and the compressor is called although
  the two fields add up to far more than the 64 bytes there are.
\<close>

theorem compressor_called_with_less_than_bound:
  "scanBuffers (Suc (Suc (Suc 0))) small_output (beginScan one_entry_scan) = Ended one_entry_done
   \<and> entry64_call \<in> set (compressorCalls one_entry_done)
   \<and> \<not> int (unat (entrySize (call_entry entry64_call))
              + unat (argMetaBytes (call_entry entry64_call)))
          \<le> int (OUTPUT_BUFFER_SIZE small_output) - int (out_at_call entry64_call)
   \<and> scanBuffers (Suc (Suc (Suc 0))) small_output (beginScan wrapping_scan) = Ended wrapping_done
   \<and> wrapping_call \<in> set (compressorCalls wrapping_done)
   \<and> \<not> int (unat (entrySize (call_entry wrapping_call))
              + unat (argMetaBytes (call_entry wrapping_call)))
          \<le> int (OUTPUT_BUFFER_SIZE small_output) - int (out_at_check wrapping_call)"
proof (intro conjI)
  show "scanBuffers (Suc (Suc (Suc 0))) small_output (beginScan one_entry_scan)
          = Ended one_entry_done"
    by (rule one_entry_scan_ends)
  show "scanBuffers (Suc (Suc (Suc 0))) small_output (beginScan wrapping_scan)
          = Ended wrapping_done"
    by (rule wrapping_scan_ends)
qed (simp_all add: one_entry_done_def wrapping_done_def entry64_call_def wrapping_call_def
       entry64_def entry_wrapping_def small_output_def)

subsection \<open>Deleting a buffer during the scan\<close>

lemma scan_from_second_steps:
  "scanIter k E scan_from_second = ScanContinue (scan_from_second\<lparr>i := 0\<rparr>)"
  "scanIter k E (scan_from_second\<lparr>i := 0\<rparr>) = ScanContinue after_erase"
  "scanIter k E after_erase = ScanContinue after_erase"
  by (simp_all add: scanIter_def scan_from_second_def after_erase_def exited_buffer_def
        idle_buffer_def peek_def checkCanDelete_def advance_def eraseAndDelete_def Let_def)

lemma after_erase_spins: "scanBuffers fuel E after_erase = Unfinished after_erase"
proof (induction fuel)
  case 0
  show ?case by simp
next
  case (Suc n)
  have "\<not> compressionThreadShouldExit after_erase \<and> \<not> outputBufferFull after_erase
        \<and> threadBuffers after_erase \<noteq> []"
    by (simp add: after_erase_def scan_from_second_def)
  with Suc show ?case by (simp add: scan_from_second_steps)
qed

text \<open>
  C9: a scan over two empty buffers that starts at the second one, the first belonging to
  a thread that has exited. The scan steps from the second buffer to the first, erases
  and deletes the first after peek found it empty and \<open>checkCanDelete\<close> held, and keeps
  \<open>i = 0\<close>; \<open>lastStagingBufferChecked\<close> stays 1 with one buffer left, which is not an
  index of \<open>threadBuffers\<close>. From there every iteration returns to the same state, and
  the scan does not end.
\<close>

theorem erase_leaves_lastStagingBufferChecked_past_the_end:
  "beginScan scan_from_second = scan_from_second
   \<and> scanIter k E scan_from_second = ScanContinue (scan_from_second\<lparr>i := 0\<rparr>)
   \<and> scanIter k E (scan_from_second\<lparr>i := 0\<rparr>) = ScanContinue after_erase
   \<and> threadBuffers after_erase = [idle_buffer]
   \<and> destroyed after_erase = [exited_buffer]
   \<and> i after_erase = 0
   \<and> lastStagingBufferChecked after_erase = 1
   \<and> \<not> lastStagingBufferChecked after_erase < length (threadBuffers after_erase)
   \<and> scanIter k E after_erase = ScanContinue after_erase
   \<and> scanBuffers fuel E after_erase = Unfinished after_erase"
  by (simp add: scan_from_second_steps after_erase_spins)
     (simp add: after_erase_def scan_from_second_def beginScan_def)

subsection \<open>Scans, the sync flag and the signal\<close>















subsection \<open>Padding\<close>

text \<open>
  What holds of the padding in every case: the length written is a multiple of 512, less
  than 512 bytes are added, and \<open>padBytesWritten\<close> grows by the number added.
\<close>

lemma padOutput_direct_counts:
  assumes "padOutput True buf off pad = Inr (buf', n, pad')"
  shows "n mod 512 = 0 \<and> off \<le> n \<and> n < off + 512 \<and> pad' = pad + (n - off)"
proof (cases "off mod 512 = 0")
  case True
  with assms show ?thesis by (simp add: padOutput_def Let_def)
next
  case False
  define r where "r = off mod 512"
  have r: "0 < r" "r < 512" "r \<le> off"
    using False by (simp_all add: r_def)
  from assms False have n: "n = off + 512 - r" and p: "pad' = pad + (512 - r)"
    by (auto simp: padOutput_def Let_def r_def split: sum.splits)
  have "off - r = off div 512 * 512"
    by (simp add: r_def minus_mod_eq_div_mult)
  moreover have "n = (off - r) + 512"
    using r n by linarith
  ultimately have "n mod 512 = 0" by simp
  moreover have "off \<le> n \<and> n < off + 512 \<and> pad' = pad + (n - off)"
    using r n p by linarith
  ultimately show ?thesis by simp
qed

text \<open>
  C5: a batch of 100 bytes in a scratch buffer of 1024 bytes that holds bytes 0xFF from an
  earlier batch. 412 pad bytes are counted and 512 bytes are to be written, but only the
  100 bytes after the batch are set to zero: the last 312 bytes to be written are still
  0xFF. For a batch of 1023 bytes the \<open>memset\<close> of 511 bytes runs past the end of the
  buffer.
\<close>

theorem padding_left_with_stale_bytes:
  "padOutput True (replicate 1024 255) 100 0
     = Inr (replicate 100 255 @ replicate 100 0 @ replicate 824 255, 512, 412)
   \<and> drop 200 (take 512 (replicate 100 255 @ replicate 100 0 @ replicate 824 (255 :: 8 word)))
     = replicate 312 255
   \<and> padOutput True (replicate 1024 255) 1023 0 = Inl OutOfRange"
  by (simp add: padOutput_def memset_def Let_def)

section \<open>Properties of construction and setLogFile\<close>

text \<open>
  C7: when \<open>open\<close> fails and returns -1 and both allocations succeed, the constructor
  does not exit: it goes on with descriptor -1. It exits with the diagnostic for the log
  file when \<open>open\<close> returns descriptor 0.
\<close>

theorem constructor_runs_on_failed_open:
  "FastLogger_constructor (- 1) 0 0 = Running (- 1)
   \<and> FastLogger_constructor 0 0 0 = Exited CouldNotOpenDefaultFile"
  by (simp add: FastLogger_constructor_def)

text \<open>
  C8: for a file that does not exist and cannot be created (\<open>access\<close> and \<open>open\<close>
  return -1) \<open>setLogFile_internal\<close> throws nothing: it syncs, stops the thread, closes
  the descriptor in use, installs -1 and restarts the thread.
\<close>

theorem setLogFile_switches_to_failed_open:
  "setLogFile_internal ''/nodir/log'' (- 1) (- 1) (- 1) True 3
     = Switched [CallSync, SetShouldExit True, NotifyWorkAdded, JoinThread, CloseFd 3,
                 SetOutputFd (- 1), SetShouldExit False, StartThread] (- 1)"
  by (simp add: setLogFile_internal_def Let_def)


end
